theory Spec2Isabelle
  imports Main "HOL-Library.Word"
begin

section \<open>Student notes summariser: data model\<close>

text \<open>
  The program is one Streamlit script, \<^verbatim>\<open>summariser_app.py\<close>. Python's \<^verbatim>\<open>str\<close> is
  modelled as \<^typ>\<open>string\<close>, \<^verbatim>\<open>bytes\<close> as a list of 8-bit words. An exception is
  represented by the text that \<^verbatim>\<open>f"{e}"\<close> prints for it, since that text is all the
  script ever reads from an exception.
\<close>

type_synonym bytes = "8 word list"
type_synonym exn = string

text \<open>
  The libraries the script calls are not part of the repository, so they are parameters
  of the model. Each call that may raise returns a sum, \<open>Inl\<close> carrying the exception.
  \<^item> \<^verbatim>\<open>fitz.open(stream=..., filetype="pdf")\<close> raises or yields the pages in page
    order; a page is represented by the outcome of its \<^verbatim>\<open>get_text()\<close>.
  \<^item> \<^verbatim>\<open>Document(BytesIO(...))\<close> raises or yields the document, represented by the
    \<^verbatim>\<open>text\<close> of each element of \<^verbatim>\<open>doc.paragraphs\<close> in document order.
  \<^item> \<^verbatim>\<open>model.generate_content(prompt)\<close> raises or yields a response, represented
    by the outcome of reading its \<^verbatim>\<open>text\<close> property (which may raise as well).
\<close>

type_synonym page = "exn + string"
type_synonym response = "exn + string"

record services =
  fitz_open :: "bytes \<Rightarrow> exn + page list"
  Document :: "bytes \<Rightarrow> exn + string list"
  generate_content :: "string \<Rightarrow> exn + response"

text \<open>What the script puts on the page, in the order of the calls.\<close>

record download_button =
  label :: string
  data :: string
  file_name :: string
  mime :: string
  key :: string
  help_text :: string

datatype element =
    StError string
  | StWarning string
  | StSuccess string
  | StInfo string
  | StMarkdown string
  | StSubheader string
  | StWrite string
  | StDownloadButton download_button

section \<open>Text extraction functions\<close>

text \<open>
  The loop \<^verbatim>\<open>for page in doc: text += page.get_text()\<close>. It runs inside the
  \<^verbatim>\<open>try\<close>, so a page whose \<^verbatim>\<open>get_text()\<close> raises ends the loop with that exception.
\<close>

fun pdf_pages :: "string \<Rightarrow> page list \<Rightarrow> exn + string" where
  "pdf_pages text [] = Inr text"
| "pdf_pages text (Inl e # doc) = Inl e"
| "pdf_pages text (Inr t # doc) = pdf_pages (text @ t) doc"

text \<open>
  \<^verbatim>\<open>extract_text_pdf(file_bytes)\<close>: the returned string together with the banners
  it shows. The handler \<^verbatim>\<open>except Exception\<close> covers both the opening of the document
  and the loop over its pages.
\<close>

definition extract_text_pdf :: "services \<Rightarrow> bytes \<Rightarrow> string \<times> element list" where
  "extract_text_pdf sv file_bytes =
     (case fitz_open sv file_bytes of
        Inl e \<Rightarrow> ('''', [StError (''Error extracting text from PDF: '' @ e)])
      | Inr doc \<Rightarrow>
          (case pdf_pages '''' doc of
             Inl e \<Rightarrow> ('''', [StError (''Error extracting text from PDF: '' @ e)])
           | Inr text \<Rightarrow> (text, [])))"

text \<open>The loop \<^verbatim>\<open>for para in doc.paragraphs: text += para.text + "\n"\<close>.\<close>

fun docx_paragraphs :: "string \<Rightarrow> string list \<Rightarrow> string" where
  "docx_paragraphs text [] = text"
| "docx_paragraphs text (para # paragraphs) =
     docx_paragraphs (text @ (para @ ''\<newline>'')) paragraphs"

text \<open>\<^verbatim>\<open>extract_text_docx(file_bytes)\<close>, with the banners it shows.\<close>

definition extract_text_docx :: "services \<Rightarrow> bytes \<Rightarrow> string \<times> element list" where
  "extract_text_docx sv file_bytes =
     (case Document sv file_bytes of
        Inl e \<Rightarrow> ('''', [StError (''Error extracting text from Word document: '' @ e)])
      | Inr doc \<Rightarrow> (docx_paragraphs '''' doc, []))"

section \<open>Session state and the inputs of one script run\<close>

text \<open>
  \<^verbatim>\<open>st.session_state\<close> holds three strings; lines 73 to 78 set each to \<^verbatim>\<open>""\<close> when
  the session starts and leave them alone afterwards.
\<close>

record session_state =
  full_notes_text :: string
  summarized_text :: string
  uploaded_file_name :: string

definition initial_session_state :: session_state where
  "initial_session_state =
     \<lparr>full_notes_text = '''', summarized_text = '''', uploaded_file_name = ''''\<rparr>"

text \<open>
  The value of the radio button: \<^verbatim>\<open>"PDF (.pdf)"\<close> or \<^verbatim>\<open>"Word Document (.docx)"\<close>.
\<close>

datatype doc_type = PDF | Word_Document

text \<open>
  What \<^verbatim>\<open>st.file_uploader\<close> returns is \<^verbatim>\<open>None\<close> or a file object with a \<^verbatim>\<open>name\<close>
  and the bytes that \<^verbatim>\<open>read()\<close> gives.
\<close>

record uploaded_file =
  name :: string
  content :: bytes

text \<open>
  \<^verbatim>\<open>GEMINI_API_KEY = os.getenv("GEMINI_API_KEY")\<close> is \<^verbatim>\<open>None\<close> or a string; the script
  only tests its truth value, which is false for \<^verbatim>\<open>None\<close> and for \<^verbatim>\<open>""\<close>.
\<close>

definition truthy :: "string option \<Rightarrow> bool" where
  "truthy k = (case k of None \<Rightarrow> False | Some s \<Rightarrow> s \<noteq> '''')"

section \<open>Upload handler (lines 94 to 110)\<close>

text \<open>The \<^verbatim>\<open>if\<close>/\<^verbatim>\<open>elif\<close> on \<^verbatim>\<open>doc_type\<close> of lines 99 to 102.\<close>

definition extract_by_doc_type :: "services \<Rightarrow> doc_type \<Rightarrow> bytes \<Rightarrow> string \<times> element list" where
  "extract_by_doc_type sv dt file_bytes =
     (case dt of
        PDF \<Rightarrow> extract_text_pdf sv file_bytes
      | Word_Document \<Rightarrow> extract_text_docx sv file_bytes)"

definition upload_handler ::
  "services \<Rightarrow> doc_type \<Rightarrow> uploaded_file option \<Rightarrow> session_state
     \<Rightarrow> session_state \<times> element list" where
  "upload_handler sv dt uploaded st =
     (case uploaded of
        None \<Rightarrow> (st, [])
      | Some f \<Rightarrow>
          (let file_bytes = content f;
               extracted = extract_by_doc_type sv dt file_bytes;
               st1 = st\<lparr>full_notes_text := fst extracted\<rparr>;
               st2 = st1\<lparr>uploaded_file_name := name f\<rparr>
           in if full_notes_text st2 \<noteq> ''''
              then (st2, snd extracted @
                      [StSuccess (uploaded_file_name st2 @
                         '' uploaded and text extracted successfully!''),
                       StInfo (''Now, click '' @ [CHR 0x27] @ ''Summarize Notes'' @ [CHR 0x27] @
                         '' to get your summary!'')])
              else (st2, snd extracted @
                      [StWarning
                         ''Could not extract text from the document. Please try another file.''])))"

section \<open>Summarize button handler (lines 113 to 135)\<close>

definition prompt :: "string \<Rightarrow> string" where
  "prompt notes =
     ''Please provide a concise and clear summary of the following student notes. '' @
     ''Focus on the main concepts, key facts, and important details. '' @
     ''Organize the summary logically, perhaps using bullet points or short paragraphs. '' @
     ''Ensure the summary is easy to understand for a student revising the material. '' @
     ''Here are the notes:\<newline>\<newline>'' @
     notes"

text \<open>
  \<open>clicked\<close> is the value of \<^verbatim>\<open>st.button("Summarize Notes", ...)\<close>. The spinner is
  on the page only while the request runs and is not recorded. \<^verbatim>\<open>model\<close> exists
  exactly when the key is truthy, which the first test requires.
\<close>

definition summarize_handler ::
  "services \<Rightarrow> string option \<Rightarrow> bool \<Rightarrow> session_state \<Rightarrow> session_state \<times> element list" where
  "summarize_handler sv GEMINI_API_KEY clicked st =
     (if \<not> clicked then (st, [])
      else if full_notes_text st \<noteq> '''' \<and> truthy GEMINI_API_KEY then
        (case generate_content sv (prompt (full_notes_text st)) of
           Inl e \<Rightarrow>
             (st\<lparr>summarized_text := ''''\<rparr>,
              [StError (''Error generating summary from Gemini: '' @ e)])
         | Inr response \<Rightarrow>
             (case response of
                Inl e \<Rightarrow>
                  (st\<lparr>summarized_text := ''''\<rparr>,
                   [StError (''Error generating summary from Gemini: '' @ e)])
              | Inr response_text \<Rightarrow> (st\<lparr>summarized_text := response_text\<rparr>, [])))
      else if \<not> truthy GEMINI_API_KEY then
        (st, [StError ''Cannot summarize without a Gemini API key. Please check your setup.''])
      else
        (st, [StWarning ''Please upload a document first before attempting to summarize.'']))"

section \<open>Display of the summary and the download (lines 140 to 151)\<close>

text \<open>
  \<^verbatim>\<open>os.path.splitext\<close> belongs to Python's standard library, not to the repository.
  It is modelled after \<^verbatim>\<open>genericpath._splitext\<close> as \<^verbatim>\<open>posixpath\<close> calls it
  (separator \<^verbatim>\<open>/\<close>, no alternative separator, extension separator \<^verbatim>\<open>.\<close>).
  \<^verbatim>\<open>str.rfind\<close> gives the highest index of the character, or \<open>-1\<close>.
\<close>

fun rfind_from :: "char \<Rightarrow> string \<Rightarrow> int \<Rightarrow> int \<Rightarrow> int" where
  "rfind_from c [] i found = found"
| "rfind_from c (x # xs) i found = rfind_from c xs (i + 1) (if x = c then i else found)"

definition rfind :: "string \<Rightarrow> char \<Rightarrow> int" where
  "rfind p c = rfind_from c p 0 (- 1)"

text \<open>
  The loop that skips leading dots: \<open>True\<close> when it reaches a character other than
  the dot before \<open>dotIndex\<close>, which is where the source returns the split pair.
\<close>

function skip_leading_dots :: "string \<Rightarrow> nat \<Rightarrow> nat \<Rightarrow> bool" where
  "skip_leading_dots p filenameIndex dotIndex =
     (if filenameIndex < dotIndex
      then (if take 1 (drop filenameIndex p) \<noteq> ''.'' then True
            else skip_leading_dots p (filenameIndex + 1) dotIndex)
      else False)"
  by pat_completeness auto
termination
  by (relation "measure (\<lambda>(p, filenameIndex, dotIndex). dotIndex - filenameIndex)") auto

definition splitext :: "string \<Rightarrow> string \<times> string" where
  "splitext p =
     (let sepIndex = rfind p CHR ''/'';
          dotIndex = rfind p CHR ''.''
      in if dotIndex > sepIndex \<and> skip_leading_dots p (nat (sepIndex + 1)) (nat dotIndex)
         then (take (nat dotIndex) p, drop (nat dotIndex) p)
         else (p, ''''))"

definition display_summary :: "session_state \<Rightarrow> element list" where
  "display_summary st =
     (if summarized_text st \<noteq> '''' then
        [StMarkdown ''---'',
         StSubheader (''Summarized Notes '' @ [CHR 0xE2, CHR 0x9C, CHR 0xA8]),
         StWrite (summarized_text st),
         StDownloadButton
           \<lparr>label = ''Download Summarized Notes '' @
                      [CHR 0xE2, CHR 0xAC, CHR 0x87, CHR 0xEF, CHR 0xB8, CHR 0x8F],
            data = summarized_text st,
            file_name =
              ''summarized_notes_'' @ fst (splitext (uploaded_file_name st)) @ ''.txt'',
            mime = ''text/plain'',
            key = ''download_summarized_notes'',
            help_text = ''Click to download the summary as a text file.''\<rparr>]
      else [])"

section \<open>One run of the script (lines 94 to 151)\<close>

text \<open>
  Streamlit runs the script from top to bottom for every user action. The state left by
  one run is the state the next run starts from.
\<close>

definition script_run ::
  "services \<Rightarrow> string option \<Rightarrow> doc_type \<Rightarrow> uploaded_file option \<Rightarrow> bool \<Rightarrow> session_state
     \<Rightarrow> session_state \<times> element list" where
  "script_run sv GEMINI_API_KEY dt uploaded clicked st =
     (let up = upload_handler sv dt uploaded st;
          su = summarize_handler sv GEMINI_API_KEY clicked (fst up)
      in (fst su, snd up @ snd su @ display_summary (fst su)))"

section \<open>Stub services\<close>

text \<open>Libraries that answer every call with a fixed outcome.\<close>

definition stub_services ::
  "exn + page list \<Rightarrow> exn + string list \<Rightarrow> exn + response \<Rightarrow> services" where
  "stub_services pdf docx answer =
     \<lparr>fitz_open = (\<lambda>file_bytes. pdf),
      Document = (\<lambda>file_bytes. docx),
      generate_content = (\<lambda>request. answer)\<rparr>"

section \<open>The stem of a file name, in words\<close>

text \<open>
  This definition is not taken from the source. It says in words of lists what part of a
  stored file name the download name keeps, and is compared with \<open>splitext\<close> below.
  \<open>ext\<close> is what follows the last dot of the name, \<open>front\<close> what precedes that dot, and
  \<open>component\<close> the part of \<open>front\<close> after its last slash. The stem is \<open>front\<close> when the
  name has a dot, no slash follows the last dot, and \<open>component\<close> holds a character
  other than a dot; in every other case it is the whole name.
\<close>

definition filename_stem :: "string \<Rightarrow> string" where
  "filename_stem p =
     (let ext = rev (takeWhile (\<lambda>c. c \<noteq> CHR ''.'') (rev p));
          front = take (length p - length ext - 1) p;
          component = rev (takeWhile (\<lambda>c. c \<noteq> CHR ''/'') (rev front))
      in if CHR ''.'' \<in> set p \<and> CHR ''/'' \<notin> set ext \<and> (\<exists>c \<in> set component. c \<noteq> CHR ''.'')
         then front
         else p)"

section \<open>Properties of the extractors\<close>

lemma docx_paragraphs_concat:
  "docx_paragraphs acc ps = acc @ concat (map (\<lambda>p. p @ ''\<newline>'') ps)"
  by (induction ps arbitrary: acc) simp_all

lemma pdf_pages_concat:
  "pdf_pages acc (map Inr ts) = Inr (acc @ concat ts)"
  by (induction ts arbitrary: acc) simp_all

lemma pdf_pages_raises:
  "Inl e \<in> set doc \<Longrightarrow> \<exists>e'. pdf_pages acc doc = Inl e'"
proof (induction doc arbitrary: acc)
  case Nil
  then show ?case by simp
next
  case (Cons p doc)
  then show ?case by (cases p) auto
qed

section \<open>Properties of \<open>splitext\<close>\<close>

lemma rfind_from_absent:
  "c \<notin> set xs \<Longrightarrow> rfind_from c xs i found = found"
  by (induction xs arbitrary: i found) auto

lemma rfind_from_last:
  "c \<notin> set ys \<Longrightarrow> rfind_from c (xs @ c # ys) i found = i + int (length xs)"
  by (induction xs arbitrary: i found) (simp_all add: rfind_from_absent)

lemma rfind_absent: "c \<notin> set p \<Longrightarrow> rfind p c = - 1"
  by (simp add: rfind_def rfind_from_absent)

lemma rfind_last: "c \<notin> set ys \<Longrightarrow> rfind (xs @ c # ys) c = int (length xs)"
  by (simp add: rfind_def rfind_from_last)

lemma skip_leading_dots_iff:
  "skip_leading_dots p i d = (\<exists>j. i \<le> j \<and> j < d \<and> take 1 (drop j p) \<noteq> ''.'')"
proof (induction p i d rule: skip_leading_dots.induct)
  case (1 p i d)
  show ?case
  proof (cases "i < d")
    case False
    then show ?thesis by (subst skip_leading_dots.simps) auto
  next
    case True
    show ?thesis
    proof (cases "take 1 (drop i p) \<noteq> ''.''")
      case nd: True
      with True show ?thesis by (subst skip_leading_dots.simps) auto
    next
      case dot: False
      have "skip_leading_dots p i d = skip_leading_dots p (i + 1) d"
        using True dot by (subst skip_leading_dots.simps) simp
      also have "\<dots> = (\<exists>j. i + 1 \<le> j \<and> j < d \<and> take 1 (drop j p) \<noteq> ''.'')"
        using "1.IH" True dot by simp
      also have "\<dots> = (\<exists>j. i \<le> j \<and> j < d \<and> take 1 (drop j p) \<noteq> ''.'')"
      proof
        assume "\<exists>j. i + 1 \<le> j \<and> j < d \<and> take 1 (drop j p) \<noteq> ''.''"
        then show "\<exists>j. i \<le> j \<and> j < d \<and> take 1 (drop j p) \<noteq> ''.''"
          by (meson add_leD1)
      next
        assume "\<exists>j. i \<le> j \<and> j < d \<and> take 1 (drop j p) \<noteq> ''.''"
        then obtain j where j: "i \<le> j" "j < d" "take 1 (drop j p) \<noteq> ''.''" by blast
        with dot have "j \<noteq> i" by auto
        with j have "i + 1 \<le> j" by simp
        with j show "\<exists>j. i + 1 \<le> j \<and> j < d \<and> take 1 (drop j p) \<noteq> ''.''" by blast
      qed
      finally show ?thesis .
    qed
  qed
qed

lemma take1_drop_nth: "j < length p \<Longrightarrow> take 1 (drop j p) = [p ! j]"
  by (simp add: take_Suc_conv_app_nth)

lemma last_part_absent:
  "c \<notin> set p \<Longrightarrow> rev (takeWhile (\<lambda>x. x \<noteq> c) (rev p)) = p"
proof -
  assume "c \<notin> set p"
  then have "takeWhile (\<lambda>x. x \<noteq> c) (rev p) = rev p"
    by auto
  then show ?thesis by (metis rev_rev_ident)
qed

lemma last_part_split:
  "c \<notin> set ys \<Longrightarrow> rev (takeWhile (\<lambda>x. x \<noteq> c) (rev (xs @ c # ys))) = ys"
proof -
  assume "c \<notin> set ys"
  then have "takeWhile (\<lambda>x. x \<noteq> c) (rev ys @ c # rev xs)
      = rev ys @ takeWhile (\<lambda>x. x \<noteq> c) (c # rev xs)"
    by (intro takeWhile_append2) auto
  then show ?thesis by simp
qed

lemma skip_leading_dots_component:
  "skip_leading_dots (pre @ seg @ rest) (length pre) (length pre + length seg)
     = (\<exists>c \<in> set seg. c \<noteq> CHR ''.'')"
proof -
  let ?p = "pre @ seg @ rest"
  have nth: "take 1 (drop j ?p) = [seg ! (j - length pre)]"
    if "length pre \<le> j" "j < length pre + length seg" for j
  proof -
    from that have "take 1 (drop j ?p) = [?p ! j]"
      by (intro take1_drop_nth) simp
    moreover from that have "j - length pre < length seg"
      by arith
    with that have "?p ! j = seg ! (j - length pre)"
      by (simp add: nth_append)
    ultimately show ?thesis
      by (simp only:)
  qed
  show ?thesis
  proof
    assume "skip_leading_dots ?p (length pre) (length pre + length seg)"
    then obtain j where j: "length pre \<le> j" "j < length pre + length seg"
      "take 1 (drop j ?p) \<noteq> ''.''"
      unfolding skip_leading_dots_iff by blast
    with nth [OF j(1,2)] have "seg ! (j - length pre) \<noteq> CHR ''.''"
      by simp
    moreover from j have "j - length pre < length seg"
      by simp
    ultimately show "\<exists>c \<in> set seg. c \<noteq> CHR ''.''"
      using nth_mem by blast
  next
    assume "\<exists>c \<in> set seg. c \<noteq> CHR ''.''"
    then obtain i where i: "i < length seg" "seg ! i \<noteq> CHR ''.''"
      by (auto simp: in_set_conv_nth)
    let ?j = "length pre + i"
    from i nth [of ?j] have "take 1 (drop ?j ?p) \<noteq> ''.''"
      by simp
    with i show "skip_leading_dots ?p (length pre) (length pre + length seg)"
      unfolding skip_leading_dots_iff by (intro exI [of _ ?j]) simp
  qed
qed

lemma splitext_no_dot:
  assumes "CHR ''.'' \<notin> set p"
  shows "splitext p = (p, '''')"
proof -
  have d: "rfind p CHR ''.'' = - 1"
    using assms by (rule rfind_absent)
  have "- 1 \<le> rfind p CHR ''/''"
  proof (cases "CHR ''/'' \<in> set p")
    case True
    then obtain xs ys where "p = xs @ CHR ''/'' # ys" "CHR ''/'' \<notin> set ys"
      by (auto dest: split_list_last)
    then show ?thesis by (simp add: rfind_last)
  next
    case False
    then show ?thesis by (simp add: rfind_absent)
  qed
  with d show ?thesis
    by (simp add: splitext_def Let_def)
qed

lemma splitext_slash_after_dot:
  assumes "CHR ''.'' \<notin> set ys" and "CHR ''/'' \<in> set ys"
  shows "splitext (xs @ CHR ''.'' # ys) = (xs @ CHR ''.'' # ys, [])"
proof -
  from assms(2) obtain us vs where ys: "ys = us @ CHR ''/'' # vs" "CHR ''/'' \<notin> set vs"
    by (auto dest: split_list_last)
  have s: "rfind (xs @ CHR ''.'' # ys) CHR ''/'' = int (length (xs @ CHR ''.'' # us))"
    using rfind_last [OF ys(2), of "xs @ CHR ''.'' # us"] ys(1) by simp
  have d: "rfind (xs @ CHR ''.'' # ys) CHR ''.'' = int (length xs)"
    using assms(1) by (rule rfind_last)
  show ?thesis
    unfolding splitext_def Let_def s d by simp
qed

lemma splitext_dot_in_last_component:
  assumes "CHR ''.'' \<notin> set ys" and "CHR ''/'' \<notin> set ys" and "CHR ''/'' \<notin> set seg"
    and "pre = [] \<or> (\<exists>us. pre = us @ [CHR ''/''])"
  shows "splitext (pre @ seg @ CHR ''.'' # ys)
     = (if \<exists>c \<in> set seg. c \<noteq> CHR ''.'' then (pre @ seg, CHR ''.'' # ys)
        else (pre @ seg @ CHR ''.'' # ys, []))"
proof -
  let ?p = "pre @ seg @ CHR ''.'' # ys"
  have d: "rfind ?p CHR ''.'' = int (length pre + length seg)"
    using rfind_last [OF assms(1), of "pre @ seg"] by simp
  have s: "rfind ?p CHR ''/'' = int (length pre) - 1"
  proof (cases "pre = []")
    case True
    with assms(2,3) show ?thesis by (simp add: rfind_absent)
  next
    case False
    with assms(4) obtain us where us: "pre = us @ [CHR ''/'']" by blast
    have "CHR ''/'' \<notin> set (seg @ CHR ''.'' # ys)"
      using assms(2,3) by simp
    from rfind_last [OF this, of us] us show ?thesis by simp
  qed
  have k: "skip_leading_dots ?p (length pre) (length pre + length seg)
      = (\<exists>c \<in> set seg. c \<noteq> CHR ''.'')"
    using skip_leading_dots_component [of pre seg "CHR ''.'' # ys"] by simp
  show ?thesis
    unfolding splitext_def Let_def s d using k by (simp add: nat_add_distrib)
qed

lemma last_component_split:
  "\<exists>pre seg. xs = pre @ seg \<and> CHR ''/'' \<notin> set seg
     \<and> (pre = [] \<or> (\<exists>us. pre = us @ [CHR ''/'']))
     \<and> rev (takeWhile (\<lambda>x. x \<noteq> CHR ''/'') (rev xs)) = seg"
proof (cases "CHR ''/'' \<in> set xs")
  case False
  then have "xs = [] @ xs \<and> CHR ''/'' \<notin> set xs
      \<and> rev (takeWhile (\<lambda>x. x \<noteq> CHR ''/'') (rev xs)) = xs"
    by (simp add: last_part_absent)
  then show ?thesis by blast
next
  case True
  then obtain us vs where v: "xs = us @ CHR ''/'' # vs" "CHR ''/'' \<notin> set vs"
    by (auto dest: split_list_last)
  have "rev (takeWhile (\<lambda>x. x \<noteq> CHR ''/'') (rev xs)) = vs"
    unfolding v(1) using v(2) by (rule last_part_split)
  with v have "xs = (us @ [CHR ''/'']) @ vs \<and> CHR ''/'' \<notin> set vs
      \<and> rev (takeWhile (\<lambda>x. x \<noteq> CHR ''/'') (rev xs)) = vs"
    by simp
  then show ?thesis by blast
qed

lemma splitext_stem: "fst (splitext p) = filename_stem p"
proof (cases "CHR ''.'' \<in> set p")
  case False
  then show ?thesis
    by (simp add: splitext_no_dot filename_stem_def Let_def)
next
  case True
  then obtain xs ys where p: "p = xs @ CHR ''.'' # ys" and ys: "CHR ''.'' \<notin> set ys"
    by (auto dest: split_list_last)
  have ext: "rev (takeWhile (\<lambda>c. c \<noteq> CHR ''.'') (rev p)) = ys"
    unfolding p using ys by (rule last_part_split)
  have front: "take (length p - length ys - 1) p = xs"
    unfolding p by simp
  show ?thesis
  proof (cases "CHR ''/'' \<in> set ys")
    case slash: True
    with ys have "splitext p = (p, [])"
      unfolding p by (rule splitext_slash_after_dot)
    moreover have "filename_stem p = p"
      unfolding filename_stem_def Let_def ext using slash by simp
    ultimately show ?thesis by simp
  next
    case noslash: False
    obtain pre seg where c: "xs = pre @ seg" "CHR ''/'' \<notin> set seg"
      "pre = [] \<or> (\<exists>us. pre = us @ [CHR ''/''])"
      "rev (takeWhile (\<lambda>x. x \<noteq> CHR ''/'') (rev xs)) = seg"
      using last_component_split [of xs] by blast
    have "splitext p
        = (if \<exists>c \<in> set seg. c \<noteq> CHR ''.'' then (pre @ seg, CHR ''.'' # ys) else (p, []))"
      using splitext_dot_in_last_component [OF ys noslash c(2,3)] unfolding p c(1) by simp
    moreover have "filename_stem p = (if \<exists>c \<in> set seg. c \<noteq> CHR ''.'' then xs else p)"
      unfolding filename_stem_def Let_def ext front c(4) using True noslash by simp
    ultimately show ?thesis
      using c(1) by simp
  qed
qed

section \<open>Claims about the extractors\<close>

text \<open>
  C5. For a DOCX that the library opens, with paragraph texts \<open>ps\<close> in document order,
  \<open>extract_text_docx\<close> returns each paragraph's text followed by a newline,
  concatenated in order, and shows no banner.
\<close>

theorem extract_text_docx_paragraphs:
  assumes "Document sv file_bytes = Inr ps"
  shows "extract_text_docx sv file_bytes = (concat (map (\<lambda>p. p @ ''\<newline>'') ps), [])"
  using assms by (simp add: extract_text_docx_def docx_paragraphs_concat)

theorem extract_text_docx_paragraphs_witness:
  "Document (stub_services (Inl ''no PDF'') (Inr [''Cells'', '''', ''Mitosis'']) (Inl ''offline'')) [1, 2]
     = Inr [''Cells'', '''', ''Mitosis'']
   \<and> extract_text_docx
       (stub_services (Inl ''no PDF'') (Inr [''Cells'', '''', ''Mitosis'']) (Inl ''offline'')) [1, 2]
     = (''Cells\<newline>\<newline>Mitosis\<newline>'', [])"
  using extract_text_docx_paragraphs
    [of "stub_services (Inl ''no PDF'') (Inr [''Cells'', '''', ''Mitosis'']) (Inl ''offline'')"
        "[1, 2]" "[''Cells'', '''', ''Mitosis'']"]
  by (simp add: stub_services_def)

text \<open>
  C6. For a PDF that the library opens and whose pages all yield their text, \<open>ts\<close> in
  page order, \<open>extract_text_pdf\<close> returns the concatenation of the page texts in that
  order with nothing between them, and shows no banner.
\<close>

theorem extract_text_pdf_pages:
  assumes "fitz_open sv file_bytes = Inr (map Inr ts)"
  shows "extract_text_pdf sv file_bytes = (concat ts, [])"
  using assms by (simp add: extract_text_pdf_def pdf_pages_concat)

theorem extract_text_pdf_pages_witness:
  "fitz_open (stub_services (Inr (map Inr [''page one'', ''page two''])) (Inl ''no DOCX'') (Inl ''offline'')) [37]
     = Inr (map Inr [''page one'', ''page two''])
   \<and> extract_text_pdf
       (stub_services (Inr (map Inr [''page one'', ''page two''])) (Inl ''no DOCX'') (Inl ''offline'')) [37]
     = (''page onepage two'', [])"
  using extract_text_pdf_pages
    [of "stub_services (Inr (map Inr [''page one'', ''page two''])) (Inl ''no DOCX'') (Inl ''offline'')"
        "[37]" "[''page one'', ''page two'']"]
  by (simp add: stub_services_def)

text \<open>
  C7. When parsing fails, the extractor returns the empty string and shows one error
  banner naming the cause. For a PDF the failure is raised by the opening of the
  document or by a page of an opened document; for a DOCX by the opening of the
  document. The result of an extractor is a string and a list of banners: both
  functions are total and have no exceptional outcome.
\<close>

theorem extract_malformed_returns_empty:
  "(fitz_open sv file_bytes = Inl e \<longrightarrow>
      extract_text_pdf sv file_bytes = ('''', [StError (''Error extracting text from PDF: '' @ e)]))
   \<and> (fitz_open sv file_bytes = Inr doc \<and> Inl e \<in> set doc \<longrightarrow>
      (\<exists>e'. extract_text_pdf sv file_bytes
         = ('''', [StError (''Error extracting text from PDF: '' @ e')])))
   \<and> (Document sv file_bytes = Inl e \<longrightarrow>
      extract_text_docx sv file_bytes
        = ('''', [StError (''Error extracting text from Word document: '' @ e)]))"
proof (intro conjI impI)
  assume "fitz_open sv file_bytes = Inl e"
  then show "extract_text_pdf sv file_bytes
      = ('''', [StError (''Error extracting text from PDF: '' @ e)])"
    by (simp add: extract_text_pdf_def)
next
  assume a: "fitz_open sv file_bytes = Inr doc \<and> Inl e \<in> set doc"
  then obtain e' where "pdf_pages '''' doc = Inl e'"
    using pdf_pages_raises by blast
  with a show "\<exists>e'. extract_text_pdf sv file_bytes
      = ('''', [StError (''Error extracting text from PDF: '' @ e')])"
    by (simp add: extract_text_pdf_def)
next
  assume "Document sv file_bytes = Inl e"
  then show "extract_text_docx sv file_bytes
      = ('''', [StError (''Error extracting text from Word document: '' @ e)])"
    by (simp add: extract_text_docx_def)
qed

theorem extract_malformed_returns_empty_witness:
  "fitz_open (stub_services (Inl ''cannot open broken document'') (Inl ''File is not a zip file'') (Inl ''offline'')) [0]
     = Inl ''cannot open broken document''
   \<and> extract_text_pdf (stub_services (Inl ''cannot open broken document'') (Inl ''File is not a zip file'') (Inl ''offline'')) [0]
     = ('''', [StError ''Error extracting text from PDF: cannot open broken document''])
   \<and> Document (stub_services (Inl ''cannot open broken document'') (Inl ''File is not a zip file'') (Inl ''offline'')) [0]
     = Inl ''File is not a zip file''
   \<and> extract_text_docx (stub_services (Inl ''cannot open broken document'') (Inl ''File is not a zip file'') (Inl ''offline'')) [0]
     = ('''', [StError ''Error extracting text from Word document: File is not a zip file''])
   \<and> fitz_open (stub_services (Inr [Inr ''page one'', Inl ''bad page'']) (Inl ''File is not a zip file'') (Inl ''offline'')) [0]
     = Inr [Inr ''page one'', Inl ''bad page'']
   \<and> Inl ''bad page'' \<in> set [Inr ''page one'', Inl ''bad page'' :: page]
   \<and> fst (extract_text_pdf (stub_services (Inr [Inr ''page one'', Inl ''bad page'']) (Inl ''File is not a zip file'') (Inl ''offline'')) [0])
     = ''''"
  using
    extract_malformed_returns_empty
      [of "stub_services (Inl ''cannot open broken document'') (Inl ''File is not a zip file'') (Inl ''offline'')"
          "[0]" "''cannot open broken document''" "[]"]
    extract_malformed_returns_empty
      [of "stub_services (Inl ''cannot open broken document'') (Inl ''File is not a zip file'') (Inl ''offline'')"
          "[0]" "''File is not a zip file''" "[]"]
    extract_malformed_returns_empty
      [of "stub_services (Inr [Inr ''page one'', Inl ''bad page'']) (Inl ''File is not a zip file'') (Inl ''offline'')"
          "[0]" "''bad page''" "[Inr ''page one'', Inl ''bad page'']"]
  by (auto simp add: stub_services_def)

section \<open>Claims about the upload handler\<close>

text \<open>
  C1, as stated, fails. A session holds the notes of \<^verbatim>\<open>old.pdf\<close>; a file
  \<^verbatim>\<open>new.pdf\<close> that the library cannot open is uploaded. Extraction yields the empty
  string, and the handler replaces the stored notes by the empty string and the stored
  file name by \<^verbatim>\<open>new.pdf\<close>.
\<close>

theorem upload_empty_keeps_state_counterexample:
  "fst (extract_by_doc_type
          (stub_services (Inl ''cannot open broken document'') (Inl ''File is not a zip file'')
             (Inl ''offline''))
          PDF [0]) = ''''
   \<and> fst (upload_handler
          (stub_services (Inl ''cannot open broken document'') (Inl ''File is not a zip file'')
             (Inl ''offline''))
          PDF (Some \<lparr>name = ''new.pdf'', content = [0]\<rparr>)
          \<lparr>full_notes_text = ''old notes'', summarized_text = '''',
           uploaded_file_name = ''old.pdf''\<rparr>)
     = \<lparr>full_notes_text = '''', summarized_text = '''', uploaded_file_name = ''new.pdf''\<rparr>
   \<and> fst (upload_handler
          (stub_services (Inl ''cannot open broken document'') (Inl ''File is not a zip file'')
             (Inl ''offline''))
          PDF (Some \<lparr>name = ''new.pdf'', content = [0]\<rparr>)
          \<lparr>full_notes_text = ''old notes'', summarized_text = '''',
           uploaded_file_name = ''old.pdf''\<rparr>)
     \<noteq> \<lparr>full_notes_text = ''old notes'', summarized_text = '''',
         uploaded_file_name = ''old.pdf''\<rparr>"
  by (simp add: upload_handler_def extract_by_doc_type_def extract_text_pdf_def
      stub_services_def Let_def)

text \<open>
  C1, amended. For every upload whose extraction yields the empty string, the handler
  shows the extractor's banners followed by the warning, stores the empty string as the
  notes and the name of the new file as the file name, and leaves the summary as it was.
\<close>

theorem upload_empty_result:
  assumes "fst (extract_by_doc_type sv dt (content f)) = ''''"
  shows "upload_handler sv dt (Some f) st
     = (st\<lparr>full_notes_text := '''', uploaded_file_name := name f\<rparr>,
        snd (extract_by_doc_type sv dt (content f)) @
        [StWarning ''Could not extract text from the document. Please try another file.''])"
  using assms by (simp add: upload_handler_def Let_def)

theorem upload_empty_result_witness:
  "fst (extract_by_doc_type
          (stub_services (Inl ''cannot open broken document'') (Inr []) (Inl ''offline''))
          Word_Document (content \<lparr>name = ''blank.docx'', content = [80, 75]\<rparr>)) = ''''
   \<and> upload_handler
        (stub_services (Inl ''cannot open broken document'') (Inr []) (Inl ''offline''))
        Word_Document (Some \<lparr>name = ''blank.docx'', content = [80, 75]\<rparr>)
        \<lparr>full_notes_text = ''old notes'', summarized_text = ''old summary'',
         uploaded_file_name = ''old.pdf''\<rparr>
     = (\<lparr>full_notes_text = '''', summarized_text = ''old summary'',
         uploaded_file_name = ''blank.docx''\<rparr>,
        [StWarning ''Could not extract text from the document. Please try another file.''])"
  using upload_empty_result
    [of "stub_services (Inl ''cannot open broken document'') (Inr []) (Inl ''offline'')"
        Word_Document "\<lparr>name = ''blank.docx'', content = [80, 75]\<rparr>"
        "\<lparr>full_notes_text = ''old notes'', summarized_text = ''old summary'',
          uploaded_file_name = ''old.pdf''\<rparr>"]
  by (simp add: extract_by_doc_type_def extract_text_docx_def stub_services_def)

section \<open>Claims about the Summarize button handler\<close>

text \<open>
  C2, as stated, fails. In a fresh session with no key configured, a click on Summarize
  shows the error banner about the missing key and not the warning about the missing
  document.
\<close>

theorem summarize_empty_input_warning_counterexample:
  "full_notes_text initial_session_state = ''''
   \<and> snd (summarize_handler
          (stub_services (Inl ''cannot open broken document'') (Inl ''File is not a zip file'')
             (Inl ''offline''))
          None True initial_session_state)
     = [StError ''Cannot summarize without a Gemini API key. Please check your setup.'']
   \<and> StWarning ''Please upload a document first before attempting to summarize.''
     \<notin> set (snd (summarize_handler
          (stub_services (Inl ''cannot open broken document'') (Inl ''File is not a zip file'')
             (Inl ''offline''))
          None True initial_session_state))"
  by (simp add: summarize_handler_def initial_session_state_def truthy_def)

text \<open>
  C2, amended. When Summarize is clicked with empty notes, the handler shows exactly one
  banner: the warning to upload a document first when a key is configured, the error
  about the missing key when none is.
\<close>

theorem summarize_empty_input_banner:
  assumes "full_notes_text st = ''''"
  shows "snd (summarize_handler sv GEMINI_API_KEY True st)
     = (if truthy GEMINI_API_KEY
        then [StWarning ''Please upload a document first before attempting to summarize.'']
        else [StError ''Cannot summarize without a Gemini API key. Please check your setup.''])"
  using assms by (simp add: summarize_handler_def)

theorem summarize_empty_input_banner_witness:
  "full_notes_text initial_session_state = ''''
   \<and> truthy (Some ''secret'')
   \<and> snd (summarize_handler
          (stub_services (Inl ''cannot open broken document'') (Inl ''File is not a zip file'')
             (Inr (Inr ''S'')))
          (Some ''secret'') True initial_session_state)
     = [StWarning ''Please upload a document first before attempting to summarize.'']"
  using summarize_empty_input_banner
    [of initial_session_state
        "stub_services (Inl ''cannot open broken document'') (Inl ''File is not a zip file'')
           (Inr (Inr ''S''))"
        "Some ''secret''"]
  by (simp add: initial_session_state_def truthy_def)

text \<open>
  C3. The handler returns the session state it was given whenever the notes are empty,
  whatever the key, and whenever no key is configured, whatever the notes.
\<close>

theorem summarize_noop_without_preconditions:
  assumes "full_notes_text st = '''' \<or> \<not> truthy GEMINI_API_KEY"
  shows "fst (summarize_handler sv GEMINI_API_KEY clicked st) = st"
  using assms by (auto simp add: summarize_handler_def)

theorem summarize_noop_without_preconditions_witness:
  "(full_notes_text \<lparr>full_notes_text = '''', summarized_text = ''old summary'',
        uploaded_file_name = ''old.pdf''\<rparr> = ''''
      \<or> \<not> truthy (Some ''secret''))
   \<and> fst (summarize_handler
          (stub_services (Inl ''cannot open broken document'') (Inl ''File is not a zip file'')
             (Inr (Inr ''S'')))
          (Some ''secret'') True
          \<lparr>full_notes_text = '''', summarized_text = ''old summary'',
           uploaded_file_name = ''old.pdf''\<rparr>)
     = \<lparr>full_notes_text = '''', summarized_text = ''old summary'',
        uploaded_file_name = ''old.pdf''\<rparr>
   \<and> (full_notes_text \<lparr>full_notes_text = ''notes'', summarized_text = ''old summary'',
        uploaded_file_name = ''old.pdf''\<rparr> = ''''
      \<or> \<not> truthy None)
   \<and> fst (summarize_handler
          (stub_services (Inl ''cannot open broken document'') (Inl ''File is not a zip file'')
             (Inr (Inr ''S'')))
          None True
          \<lparr>full_notes_text = ''notes'', summarized_text = ''old summary'',
           uploaded_file_name = ''old.pdf''\<rparr>)
     = \<lparr>full_notes_text = ''notes'', summarized_text = ''old summary'',
        uploaded_file_name = ''old.pdf''\<rparr>"
  using
    summarize_noop_without_preconditions
      [of "\<lparr>full_notes_text = '''', summarized_text = ''old summary'',
            uploaded_file_name = ''old.pdf''\<rparr>"
          "Some ''secret''"
          "stub_services (Inl ''cannot open broken document'') (Inl ''File is not a zip file'')
             (Inr (Inr ''S''))"
          True]
    summarize_noop_without_preconditions
      [of "\<lparr>full_notes_text = ''notes'', summarized_text = ''old summary'',
            uploaded_file_name = ''old.pdf''\<rparr>"
          None
          "stub_services (Inl ''cannot open broken document'') (Inl ''File is not a zip file'')
             (Inr (Inr ''S''))"
          True]
  by (simp add: truthy_def)

text \<open>
  C4. When the notes are not empty, a key is configured and the request raises, either
  in \<^verbatim>\<open>generate_content\<close> or when the \<^verbatim>\<open>text\<close> of the response is read, the handler
  stores the empty string as the summary, whatever the summary was before, and shows
  the error banner naming the cause.
\<close>

theorem summarize_failure_clears_summary:
  assumes "full_notes_text st \<noteq> ''''" and "truthy GEMINI_API_KEY"
    and "generate_content sv (prompt (full_notes_text st)) = Inl e
         \<or> generate_content sv (prompt (full_notes_text st)) = Inr (Inl e)"
  shows "summarize_handler sv GEMINI_API_KEY True st
     = (st\<lparr>summarized_text := ''''\<rparr>,
        [StError (''Error generating summary from Gemini: '' @ e)])"
  using assms by (auto simp add: summarize_handler_def)

theorem summarize_failure_clears_summary_witness:
  "full_notes_text \<lparr>full_notes_text = ''notes'', summarized_text = ''old summary'',
        uploaded_file_name = ''old.pdf''\<rparr> \<noteq> ''''
   \<and> truthy (Some ''secret'')
   \<and> generate_content
        (stub_services (Inl ''cannot open broken document'') (Inl ''File is not a zip file'')
           (Inl ''quota exceeded''))
        (prompt ''notes'') = Inl ''quota exceeded''
   \<and> summarize_handler
        (stub_services (Inl ''cannot open broken document'') (Inl ''File is not a zip file'')
           (Inl ''quota exceeded''))
        (Some ''secret'') True
        \<lparr>full_notes_text = ''notes'', summarized_text = ''old summary'',
         uploaded_file_name = ''old.pdf''\<rparr>
     = (\<lparr>full_notes_text = ''notes'', summarized_text = '''',
         uploaded_file_name = ''old.pdf''\<rparr>,
        [StError ''Error generating summary from Gemini: quota exceeded''])"
  using summarize_failure_clears_summary
    [of "\<lparr>full_notes_text = ''notes'', summarized_text = ''old summary'',
          uploaded_file_name = ''old.pdf''\<rparr>"
        "Some ''secret''"
        "stub_services (Inl ''cannot open broken document'') (Inl ''File is not a zip file'')
           (Inl ''quota exceeded'')"
        "''quota exceeded''"]
  by (simp add: truthy_def stub_services_def)

text \<open>
  C8. When the notes are not empty, a key is configured and the request succeeds, the
  handler stores the text of the response as the summary, unchanged, and shows no
  banner. The request carries the fixed instructions followed by the notes.
\<close>

theorem summarize_success_stores_response:
  assumes "full_notes_text st \<noteq> ''''" and "truthy GEMINI_API_KEY"
    and "generate_content sv (prompt (full_notes_text st)) = Inr (Inr s)"
  shows "summarize_handler sv GEMINI_API_KEY True st = (st\<lparr>summarized_text := s\<rparr>, [])"
  using assms by (simp add: summarize_handler_def)

theorem summarize_success_stores_response_witness:
  "full_notes_text \<lparr>full_notes_text = ''T'', summarized_text = '''',
        uploaded_file_name = ''biology101.pdf''\<rparr> \<noteq> ''''
   \<and> truthy (Some ''secret'')
   \<and> generate_content
        (stub_services (Inl ''cannot open broken document'') (Inl ''File is not a zip file'')
           (Inr (Inr ''S'')))
        (prompt ''T'') = Inr (Inr ''S'')
   \<and> summarize_handler
        (stub_services (Inl ''cannot open broken document'') (Inl ''File is not a zip file'')
           (Inr (Inr ''S'')))
        (Some ''secret'') True
        \<lparr>full_notes_text = ''T'', summarized_text = '''',
         uploaded_file_name = ''biology101.pdf''\<rparr>
     = (\<lparr>full_notes_text = ''T'', summarized_text = ''S'',
         uploaded_file_name = ''biology101.pdf''\<rparr>, [])"
  using summarize_success_stores_response
    [of "\<lparr>full_notes_text = ''T'', summarized_text = '''',
          uploaded_file_name = ''biology101.pdf''\<rparr>"
        "Some ''secret''"
        "stub_services (Inl ''cannot open broken document'') (Inl ''File is not a zip file'')
           (Inr (Inr ''S''))"
        "''S''"]
  by (simp add: truthy_def stub_services_def)

section \<open>Claims about the download\<close>

lemma download_offered_iff:
  "(\<exists>b. StDownloadButton b \<in> set (display_summary st)) = (summarized_text st \<noteq> '''')"
  by (simp add: display_summary_def)

lemma summary_written_iff:
  "(StWrite s \<in> set (display_summary st)) = (summarized_text st \<noteq> '''' \<and> s = summarized_text st)"
  by (auto simp add: display_summary_def)

lemma download_button_fields:
  assumes "StDownloadButton b \<in> set (display_summary st)"
  shows "summarized_text st \<noteq> ''''"
    and "data b = summarized_text st"
    and "file_name b = ''summarized_notes_'' @ fst (splitext (uploaded_file_name st)) @ ''.txt''"
    and "mime b = ''text/plain''"
  using assms by (auto simp add: display_summary_def split: if_splits)

text \<open>
  C9, as stated, fails. In a fresh session a PDF named \<^verbatim>\<open>.pdf\<close> is uploaded and
  summarised in one run, the backend answering \<^verbatim>\<open>S\<close>. The stored file name is the
  empty base name followed by the extension \<^verbatim>\<open>.pdf\<close>, so the claim gives the download
  the name \<^verbatim>\<open>summarized_notes_.txt\<close>. The download offered is named
  \<^verbatim>\<open>summarized_notes_.pdf.txt\<close>: the extension is kept.
\<close>

theorem download_name_keeps_extension_counterexample:
  "uploaded_file_name
     (fst (script_run
        (stub_services (Inr [Inr ''T'']) (Inl ''File is not a zip file'') (Inr (Inr ''S'')))
        (Some ''secret'') PDF (Some \<lparr>name = ''.pdf'', content = [37]\<rparr>) True
        initial_session_state))
     = '''' @ ''.pdf''
   \<and> StDownloadButton
        \<lparr>label = ''Download Summarized Notes '' @
           [CHR 0xE2, CHR 0xAC, CHR 0x87, CHR 0xEF, CHR 0xB8, CHR 0x8F],
         data = ''S'', file_name = ''summarized_notes_.pdf.txt'', mime = ''text/plain'',
         key = ''download_summarized_notes'',
         help_text = ''Click to download the summary as a text file.''\<rparr>
     \<in> set (snd (script_run
        (stub_services (Inr [Inr ''T'']) (Inl ''File is not a zip file'') (Inr (Inr ''S'')))
        (Some ''secret'') PDF (Some \<lparr>name = ''.pdf'', content = [37]\<rparr>) True
        initial_session_state))
   \<and> ''summarized_notes_.pdf.txt'' \<noteq> ''summarized_notes_'' @ '''' @ ''.txt''"
  by (simp add: script_run_def upload_handler_def summarize_handler_def display_summary_def
      extract_by_doc_type_def extract_text_pdf_def stub_services_def initial_session_state_def
      truthy_def splitext_def rfind_def Let_def)

text \<open>
  C9, amended. Whenever a download is offered, the summary is not empty, the content of
  the download is the stored summary, its type is plain text, and its name is
  \<^verbatim>\<open>summarized_notes_\<close>, then the stem of the stored file name, then \<^verbatim>\<open>.txt\<close>. The
  stem is the part of the stored name before its last dot when the name has a dot, no
  slash follows that dot, and a character other than a dot lies between the last slash
  before that dot (or the start of the name) and the dot; in every other case the stem
  is the whole stored name, its extension included. So \<^verbatim>\<open>biology101.pdf\<close> gives
  \<^verbatim>\<open>summarized_notes_biology101.txt\<close>. The statement holds for every stored name: by
  \<open>splitext_stem\<close> the first component that \<open>splitext\<close> computes is the stem. By
  \<open>download_offered_iff\<close> a download is offered exactly when the summary is not empty.
\<close>

theorem download_content_and_name:
  assumes "StDownloadButton b \<in> set (display_summary st)"
  shows "summarized_text st \<noteq> ''''
     \<and> data b = summarized_text st
     \<and> mime b = ''text/plain''
     \<and> file_name b = ''summarized_notes_'' @ filename_stem (uploaded_file_name st) @ ''.txt''"
proof -
  note f = download_button_fields [OF assms]
  have "fst (splitext (uploaded_file_name st)) = filename_stem (uploaded_file_name st)"
    by (rule splitext_stem)
  with f show ?thesis by simp
qed

theorem download_content_and_name_witness:
  "StDownloadButton
     \<lparr>label = ''Download Summarized Notes '' @
        [CHR 0xE2, CHR 0xAC, CHR 0x87, CHR 0xEF, CHR 0xB8, CHR 0x8F],
      data = ''S'', file_name = ''summarized_notes_biology101.txt'', mime = ''text/plain'',
      key = ''download_summarized_notes'',
      help_text = ''Click to download the summary as a text file.''\<rparr>
     \<in> set (display_summary
          \<lparr>full_notes_text = ''T'', summarized_text = ''S'',
           uploaded_file_name = ''biology101.pdf''\<rparr>)
   \<and> filename_stem ''biology101.pdf'' = ''biology101''
   \<and> filename_stem ''notes.v2.docx'' = ''notes.v2''
   \<and> filename_stem ''.pdf'' = ''.pdf''
   \<and> file_name
        \<lparr>label = ''Download Summarized Notes '' @
           [CHR 0xE2, CHR 0xAC, CHR 0x87, CHR 0xEF, CHR 0xB8, CHR 0x8F],
         data = ''S'', file_name = ''summarized_notes_biology101.txt'', mime = ''text/plain'',
         key = ''download_summarized_notes'',
         help_text = ''Click to download the summary as a text file.''\<rparr>
     = ''summarized_notes_'' @
       filename_stem
         (uploaded_file_name
            \<lparr>full_notes_text = ''T'', summarized_text = ''S'',
             uploaded_file_name = ''biology101.pdf''\<rparr>) @
       ''.txt''"
proof -
  have m: "StDownloadButton
     \<lparr>label = ''Download Summarized Notes '' @
        [CHR 0xE2, CHR 0xAC, CHR 0x87, CHR 0xEF, CHR 0xB8, CHR 0x8F],
      data = ''S'', file_name = ''summarized_notes_biology101.txt'', mime = ''text/plain'',
      key = ''download_summarized_notes'',
      help_text = ''Click to download the summary as a text file.''\<rparr>
     \<in> set (display_summary
          \<lparr>full_notes_text = ''T'', summarized_text = ''S'',
           uploaded_file_name = ''biology101.pdf''\<rparr>)"
    by (simp add: display_summary_def splitext_def rfind_def)
  have s: "filename_stem ''biology101.pdf'' = ''biology101''"
    "filename_stem ''notes.v2.docx'' = ''notes.v2''"
    "filename_stem ''.pdf'' = ''.pdf''"
    by (simp_all add: filename_stem_def)
  show ?thesis
    using m s download_content_and_name [OF m] by simp
qed

section \<open>Claims about a run of the script\<close>

text \<open>
  C10. A session holds a summary that is not empty. In a run of the script with a newly
  uploaded file whose extraction yields text, and without a click on Summarize, the
  stored summary stays as it was and is written to the page, the stored file name
  becomes the name of the new file, and every download offered, of which there is one,
  has the old summary as content and a name derived from the name of the new file.
\<close>

theorem stale_summary_under_new_name:
  assumes "summarized_text st \<noteq> ''''"
    and "fst (extract_by_doc_type sv dt (content f)) \<noteq> ''''"
  shows "summarized_text (fst (script_run sv GEMINI_API_KEY dt (Some f) False st))
       = summarized_text st
     \<and> full_notes_text (fst (script_run sv GEMINI_API_KEY dt (Some f) False st))
       = fst (extract_by_doc_type sv dt (content f))
     \<and> uploaded_file_name (fst (script_run sv GEMINI_API_KEY dt (Some f) False st)) = name f
     \<and> StWrite (summarized_text st)
       \<in> set (snd (script_run sv GEMINI_API_KEY dt (Some f) False st))
     \<and> (\<exists>b. StDownloadButton b \<in> set (snd (script_run sv GEMINI_API_KEY dt (Some f) False st)))
     \<and> (\<forall>b. StDownloadButton b \<in> set (snd (script_run sv GEMINI_API_KEY dt (Some f) False st))
          \<longrightarrow> data b = summarized_text st
            \<and> file_name b = ''summarized_notes_'' @ fst (splitext (name f)) @ ''.txt'')"
proof -
  let ?st' = "st\<lparr>full_notes_text := fst (extract_by_doc_type sv dt (content f)),
                 uploaded_file_name := name f\<rparr>"
  let ?up = "snd (extract_by_doc_type sv dt (content f)) @
      [StSuccess (name f @ '' uploaded and text extracted successfully!''),
       StInfo (''Now, click '' @ [CHR 0x27] @ ''Summarize Notes'' @ [CHR 0x27] @
         '' to get your summary!'')]"
  have up: "upload_handler sv dt (Some f) st = (?st', ?up)"
    using assms(2) by (simp add: upload_handler_def Let_def)
  have su: "summarize_handler sv GEMINI_API_KEY False ?st' = (?st', [])"
    by (simp add: summarize_handler_def)
  have run: "script_run sv GEMINI_API_KEY dt (Some f) False st
      = (?st', ?up @ display_summary ?st')"
    by (simp add: script_run_def Let_def up su)
  have no_button: "StDownloadButton b \<notin> set (snd (extract_by_doc_type sv dt (content f)))" for b
    by (cases dt)
      (auto simp add: extract_by_doc_type_def extract_text_pdf_def extract_text_docx_def
        split: sum.splits)
  have st': "summarized_text ?st' = summarized_text st" "uploaded_file_name ?st' = name f"
    by simp_all
  have w: "StWrite (summarized_text st) \<in> set (display_summary ?st')"
    using assms(1) by (simp add: summary_written_iff)
  have ex: "\<exists>b. StDownloadButton b \<in> set (display_summary ?st')"
    using assms(1) by (simp add: download_offered_iff)
  have all: "data b = summarized_text st
      \<and> file_name b = ''summarized_notes_'' @ fst (splitext (name f)) @ ''.txt''"
    if "StDownloadButton b \<in> set (?up @ display_summary ?st')" for b
  proof -
    from that no_button have "StDownloadButton b \<in> set (display_summary ?st')"
      by auto
    from download_button_fields(2,3) [OF this] show ?thesis
      by simp
  qed
  show ?thesis
    unfolding run fst_conv snd_conv using w ex all by auto
qed

theorem stale_summary_under_new_name_witness:
  "summarized_text \<lparr>full_notes_text = ''biology notes'', summarized_text = ''biology summary'',
        uploaded_file_name = ''biology101.pdf''\<rparr> \<noteq> ''''
   \<and> fst (extract_by_doc_type
          (stub_services (Inr [Inr ''history notes'']) (Inl ''File is not a zip file'')
             (Inl ''offline''))
          PDF (content \<lparr>name = ''history202.pdf'', content = [37, 80]\<rparr>)) \<noteq> ''''
   \<and> fst (script_run
          (stub_services (Inr [Inr ''history notes'']) (Inl ''File is not a zip file'')
             (Inl ''offline''))
          (Some ''secret'') PDF (Some \<lparr>name = ''history202.pdf'', content = [37, 80]\<rparr>) False
          \<lparr>full_notes_text = ''biology notes'', summarized_text = ''biology summary'',
           uploaded_file_name = ''biology101.pdf''\<rparr>)
     = \<lparr>full_notes_text = ''history notes'', summarized_text = ''biology summary'',
        uploaded_file_name = ''history202.pdf''\<rparr>
   \<and> StWrite ''biology summary''
     \<in> set (snd (script_run
          (stub_services (Inr [Inr ''history notes'']) (Inl ''File is not a zip file'')
             (Inl ''offline''))
          (Some ''secret'') PDF (Some \<lparr>name = ''history202.pdf'', content = [37, 80]\<rparr>) False
          \<lparr>full_notes_text = ''biology notes'', summarized_text = ''biology summary'',
           uploaded_file_name = ''biology101.pdf''\<rparr>))
   \<and> StDownloadButton
        \<lparr>label = ''Download Summarized Notes '' @
           [CHR 0xE2, CHR 0xAC, CHR 0x87, CHR 0xEF, CHR 0xB8, CHR 0x8F],
         data = ''biology summary'', file_name = ''summarized_notes_history202.txt'',
         mime = ''text/plain'', key = ''download_summarized_notes'',
         help_text = ''Click to download the summary as a text file.''\<rparr>
     \<in> set (snd (script_run
          (stub_services (Inr [Inr ''history notes'']) (Inl ''File is not a zip file'')
             (Inl ''offline''))
          (Some ''secret'') PDF (Some \<lparr>name = ''history202.pdf'', content = [37, 80]\<rparr>) False
          \<lparr>full_notes_text = ''biology notes'', summarized_text = ''biology summary'',
           uploaded_file_name = ''biology101.pdf''\<rparr>))"
  using stale_summary_under_new_name
    [of "\<lparr>full_notes_text = ''biology notes'', summarized_text = ''biology summary'',
          uploaded_file_name = ''biology101.pdf''\<rparr>"
        "stub_services (Inr [Inr ''history notes'']) (Inl ''File is not a zip file'')
           (Inl ''offline'')"
        PDF "\<lparr>name = ''history202.pdf'', content = [37, 80]\<rparr>" "Some ''secret''"]
  by (simp add: script_run_def upload_handler_def summarize_handler_def display_summary_def
      extract_by_doc_type_def extract_text_pdf_def stub_services_def splitext_def rfind_def
      Let_def)

end
